theory Spec2Isabelle
  imports Main "HOL-Library.AList"
begin

section \<open>JavaScript values\<close>

text \<open>
  The server of \<^verbatim>\<open>src/index.js\<close> handles values produced by \<^verbatim>\<open>JSON.parse\<close> and
  reads their properties. A value is modelled by the datatype below. An object is the
  list of its own properties in enumeration order. Numbers are modelled by integers:
  fractional literals, exponents and values beyond the exact range of a double are
  outside the model. Strings are byte strings (the UTF-8 text of the source file and of
  the wire).
\<close>

datatype jsval =
    JUndefined
  | JNull
  | JBool bool
  | JNum int
  | JStr string
  | JArr "jsval list"
  | JObj "(string \<times> jsval) list"

text \<open>
  \<open>SyntaxError\<close> and \<open>TypeError\<close> are the exceptions of JavaScript. \<open>OutOfRange\<close> is not
  an exception: it marks a number outside the safe integers, whose text the model does
  not compute, and a result that ends in it says nothing about the handler.
\<close>

datatype error = SyntaxError | TypeError | OutOfRange

text \<open>Truthiness, as tested by \<^verbatim>\<open>!x\<close>, \<^verbatim>\<open>x && y\<close>, \<^verbatim>\<open>x || y\<close> and \<^verbatim>\<open>if (x)\<close>.\<close>

fun ToBoolean :: "jsval \<Rightarrow> bool" where
  "ToBoolean JUndefined = False"
| "ToBoolean JNull = False"
| "ToBoolean (JBool b) = b"
| "ToBoolean (JNum n) = (n \<noteq> 0)"
| "ToBoolean (JStr s) = (s \<noteq> [])"
| "ToBoolean (JArr xs) = True"
| "ToBoolean (JObj fs) = True"

text \<open>
  Property read \<^verbatim>\<open>v.name\<close> on a value that is neither \<^verbatim>\<open>null\<close> nor \<^verbatim>\<open>undefined\<close>
  (on those the read throws; the handler checks that case before it calls \<open>get_prop\<close>).
  The names read by the server (\<^verbatim>\<open>type\<close>, \<^verbatim>\<open>key\<close>, \<^verbatim>\<open>targetId\<close>) are found on no
  prototype, so a primitive or an array gives \<^verbatim>\<open>undefined\<close>.
\<close>

fun get_prop :: "jsval \<Rightarrow> string \<Rightarrow> jsval" where
  "get_prop (JObj fs) name = (case map_of fs name of Some v \<Rightarrow> v | None \<Rightarrow> JUndefined)"
| "get_prop v name = JUndefined"

text \<open>
  Property write \<^verbatim>\<open>v.name = x\<close>: an existing property keeps its place, a new one is
  added last. The server writes only to a value whose \<^verbatim>\<open>type\<close> property is a string,
  which is an object; the second equation is never reached from the handlers.
\<close>

fun set_prop :: "jsval \<Rightarrow> string \<Rightarrow> jsval \<Rightarrow> jsval" where
  "set_prop (JObj fs) name x = JObj (AList.update name x fs)"
| "set_prop v name x = v"

text \<open>
  Decimal digits of an integer. A template literal renders a number so when it is a
  safe integer (at most \<open>2\<^sup>5\<^sup>3 - 1\<close> in absolute value); beyond, JavaScript prints the
  shortest digits that read back as the same double, and exponent form from
  \<open>10\<^sup>2\<^sup>1\<close>. \<open>ToString\<close> below applies \<open>Number_toString\<close> to safe integers only. The
  message texts apply it to socket identifiers, which count up from 1 and are taken to
  stay in that range.
\<close>

function nat_to_string :: "nat \<Rightarrow> string" where
  "nat_to_string n =
     (if n < 10 then [char_of (48 + n)]
      else nat_to_string (n div 10) @ [char_of (48 + n mod 10)])"
  by pat_completeness auto
termination
  by (relation "measure (\<lambda>n. n)") auto

definition Number_toString :: "int \<Rightarrow> string" where
  "Number_toString n =
     (if n < 0 then CHR ''-'' # nat_to_string (nat (- n)) else nat_to_string (nat n))"

text \<open>
  The conversion to text that a template literal \<^verbatim>\<open>`${v}`\<close> applies. An array joins the
  texts of its elements with commas, \<^verbatim>\<open>null\<close> and \<^verbatim>\<open>undefined\<close> elements giving the
  empty text. An object is converted by calling its \<^verbatim>\<open>toString\<close>, then its
  \<^verbatim>\<open>valueOf\<close>, whichever is callable and returns a primitive. An object made by
  \<^verbatim>\<open>JSON.parse\<close> inherits both from \<^verbatim>\<open>Object.prototype\<close> and renders as
  \<^verbatim>\<open>[object Object]\<close>, unless it has an own property named \<^verbatim>\<open>toString\<close>: that
  property is data, not callable, and the inherited or own \<^verbatim>\<open>valueOf\<close> yields
  no primitive, so the conversion throws a \<^verbatim>\<open>TypeError\<close>.
\<close>

fun ToString :: "jsval \<Rightarrow> error + string"
  and join_elements :: "jsval list \<Rightarrow> error + string"
  and element_text :: "jsval \<Rightarrow> error + string" where
  "ToString JUndefined = Inr ''undefined''"
| "ToString JNull = Inr ''null''"
| "ToString (JBool b) = Inr (if b then ''true'' else ''false'')"
| "ToString (JNum n) =
     (if \<bar>n\<bar> \<le> 9007199254740991 then Inr (Number_toString n) else Inl OutOfRange)"
| "ToString (JStr s) = Inr s"
| "ToString (JArr xs) = join_elements xs"
| "ToString (JObj fs) =
     (if ''toString'' \<in> set (map fst fs) then Inl TypeError else Inr ''[object Object]'')"
| "join_elements [] = Inr []"
| "join_elements [x] = element_text x"
| "join_elements (x # y # ys) =
     (case element_text x of
        Inl e \<Rightarrow> Inl e
      | Inr a \<Rightarrow>
          (case join_elements (y # ys) of
             Inl e \<Rightarrow> Inl e
           | Inr b \<Rightarrow> Inr (a @ '','' @ b)))"
| "element_text JUndefined = Inr []"
| "element_text JNull = Inr []"
| "element_text (JBool b) = ToString (JBool b)"
| "element_text (JNum n) = ToString (JNum n)"
| "element_text (JStr s) = ToString (JStr s)"
| "element_text (JArr xs) = ToString (JArr xs)"
| "element_text (JObj fs) = ToString (JObj fs)"

section \<open>Server state\<close>

text \<open>
  A socket is identified by the \<^verbatim>\<open>wsId\<close> that \<^verbatim>\<open>fetch\<close> stored in its \<^verbatim>\<open>data\<close>
  (\<^verbatim>\<open>nextWsId++\<close> gives every socket another one), so that \<^verbatim>\<open>ws === adminWs\<close> is
  equality of identifiers and \<^verbatim>\<open>ws.data.wsId\<close> is the identifier itself. The mutable
  field \<^verbatim>\<open>ws.data.role\<close> of every socket lives in the store \<open>ws_role\<close>, \<open>None\<close>
  being \<^verbatim>\<open>undefined\<close>.
\<close>

datatype role = Admin | User  \<comment> \<open>the strings \<^verbatim>\<open>'admin'\<close> and \<^verbatim>\<open>'user'\<close>\<close>

text \<open>
  The module's variables. \<open>userConnections\<close> maps a \<^verbatim>\<open>wsId\<close> to the \<^verbatim>\<open>ws\<close> of its
  entry \<^verbatim>\<open>{ ws }\<close>; \<open>adminConnections\<close> maps it to \<^verbatim>\<open>{ ws, currentUserId }\<close>. A
  \<^verbatim>\<open>Map\<close> keeps insertion order, so both are association lists.
\<close>

record state =
  adminLongTermPublicKey :: jsval
  adminWs :: "nat option"
  userConnections :: "(nat \<times> nat) list"
  adminConnections :: "(nat \<times> nat \<times> nat option) list"
  nextWsId :: nat
  ws_role :: "nat \<Rightarrow> role option"

definition init_state :: state where
  "init_state =
     \<lparr> adminLongTermPublicKey = JNull, adminWs = None, userConnections = [],
       adminConnections = [], nextWsId = 1, ws_role = (\<lambda>w. None) \<rparr>"

text \<open>
  What a handler does to the outside: \<^verbatim>\<open>ws.send(JSON.stringify(v))\<close> is \<open>Send ws v\<close>
  (the value handed to \<^verbatim>\<open>JSON.stringify\<close>; serialisation itself is not modelled),
  \<^verbatim>\<open>ws.close(code, reason)\<close> is \<open>Close ws (Some (code, reason))\<close> and \<^verbatim>\<open>ws.close()\<close>
  is \<open>Close ws None\<close>. Console output is left out.
\<close>

datatype effect = Send nat jsval | Close nat "(nat \<times> string) option"

record result =
  post :: state
  effects :: "effect list"
  thrown :: "error option"

definition returns :: "state \<Rightarrow> effect list \<Rightarrow> result" where
  "returns s es = \<lparr> post = s, effects = es, thrown = None \<rparr>"

definition throws :: "state \<Rightarrow> effect list \<Rightarrow> error \<Rightarrow> result" where
  "throws s es e = \<lparr> post = s, effects = es, thrown = Some e \<rparr>"

section \<open>Message texts\<close>

definition text_key_stored :: string where
  "text_key_stored =
     [CHR 0xE9, CHR 0x95, CHR 0xBF, CHR 0xE6, CHR 0x9C, CHR 0x9F, CHR 0xE5, CHR 0x85,
      CHR 0xAC, CHR 0xE9, CHR 0x92, CHR 0xA5, CHR 0xE5, CHR 0xB7, CHR 0xB2, CHR 0xE5,
      CHR 0xAD, CHR 0x98, CHR 0xE5, CHR 0x82, CHR 0xA8, CHR 0xEF, CHR 0xBC, CHR 0x8C,
      CHR 0xE5, CHR 0x8F, CHR 0xAF, CHR 0xE7, CHR 0x94, CHR 0xA8, CHR 0xE4, CHR 0xBA,
      CHR 0x8E, CHR 0xE8, CHR 0xBA, CHR 0xAB, CHR 0xE4, CHR 0xBB, CHR 0xBD, CHR 0xE9,
      CHR 0xAA, CHR 0x8C, CHR 0xE8, CHR 0xAF, CHR 0x81, CHR 0xE3, CHR 0x80, CHR 0x82]"

definition text_target_not_found :: string where
  "text_target_not_found =
     [CHR 0xE6, CHR 0x9C, CHR 0xAA, CHR 0xE6, CHR 0x89, CHR 0xBE, CHR 0xE5, CHR 0x88,
      CHR 0xB0, CHR 0xE7, CHR 0x9B, CHR 0xAE, CHR 0xE6, CHR 0xA0, CHR 0x87, CHR 0xE4,
      CHR 0xBC, CHR 0x9A, CHR 0xE8, CHR 0xAF, CHR 0x9D] @ '' ID: ''"

definition text_admin :: string where
  "text_admin =
     [CHR 0xE7, CHR 0xAE, CHR 0xA1, CHR 0xE7, CHR 0x90, CHR 0x86, CHR 0xE5, CHR 0x91,
      CHR 0x98]"

definition text_new_user :: "nat \<Rightarrow> string" where
  "text_new_user wsId =
     [CHR 0xE6, CHR 0x96, CHR 0xB0, CHR 0xE7, CHR 0x94, CHR 0xA8, CHR 0xE6, CHR 0x88,
      CHR 0xB7] @ '' (ID: '' @ Number_toString (int wsId) @ '') '' @
     [CHR 0xE5, CHR 0xB7, CHR 0xB2, CHR 0xE8, CHR 0xBF, CHR 0x9E, CHR 0xE6, CHR 0x8E,
      CHR 0xA5, CHR 0xE3, CHR 0x80, CHR 0x82]"

definition text_admin_offline :: string where
  "text_admin_offline =
     [CHR 0xE7, CHR 0xAE, CHR 0xA1, CHR 0xE7, CHR 0x90, CHR 0x86, CHR 0xE5, CHR 0x91,
      CHR 0x98, CHR 0xE5, CHR 0xB7, CHR 0xB2, CHR 0xE7, CHR 0xA6, CHR 0xBB, CHR 0xE7,
      CHR 0xBA, CHR 0xBF, CHR 0xEF, CHR 0xBC, CHR 0x8C, CHR 0xE4, CHR 0xBC, CHR 0x9A,
      CHR 0xE8, CHR 0xAF, CHR 0x9D, CHR 0xE7, CHR 0xBB, CHR 0x93, CHR 0xE6, CHR 0x9D,
      CHR 0x9F, CHR 0xE3, CHR 0x80, CHR 0x82]"

definition text_user_left :: "nat \<Rightarrow> string" where
  "text_user_left wsId =
     [CHR 0xE7, CHR 0x94, CHR 0xA8, CHR 0xE6, CHR 0x88, CHR 0xB7] @
     '' (ID: '' @ Number_toString (int wsId) @ '') '' @
     [CHR 0xE5, CHR 0xB7, CHR 0xB2, CHR 0xE6, CHR 0x96, CHR 0xAD, CHR 0xE5, CHR 0xBC,
      CHR 0x80, CHR 0xE3, CHR 0x80, CHR 0x82]"

section \<open>Peer lookup\<close>

text \<open>
  \<^verbatim>\<open>userConnections.get(k)\<close>: the keys are the numbers set by \<^verbatim>\<open>open\<close>, and a
  \<^verbatim>\<open>Map\<close> compares keys without conversion, so only a number finds an entry.
\<close>

fun Map_get :: "(nat \<times> 'v) list \<Rightarrow> jsval \<Rightarrow> 'v option" where
  "Map_get m (JNum n) = (if 0 \<le> n then map_of m (nat n) else None)"
| "Map_get m k = None"

definition findPeer :: "state \<Rightarrow> nat \<Rightarrow> role option \<Rightarrow> jsval \<Rightarrow> nat option" where
  "findPeer s senderId senderRole targetId0 =
     (let targetId = (if targetId0 = JUndefined then JNull else targetId0) in
      if senderRole = Some Admin \<and> ToBoolean targetId then
        (case Map_get (userConnections s) targetId of
           Some user \<Rightarrow> Some user
         | None \<Rightarrow> None)
      else if senderRole = Some User then adminWs s
      else None)"

section \<open>The handlers\<close>

text \<open>
  \<^verbatim>\<open>fetch\<close> on the path \<^verbatim>\<open>/ws\<close>: \<^verbatim>\<open>const id = nextWsId++\<close>. The identifier is
  used up whether or not the upgrade succeeds; on the other paths \<^verbatim>\<open>fetch\<close> touches
  no variable of the module.
\<close>

definition fetch_ws :: "state \<Rightarrow> nat \<times> state" where
  "fetch_ws s = (nextWsId s, s\<lparr>nextWsId := nextWsId s + 1\<rparr>)"

text \<open>
  \<^verbatim>\<open>websocket.message(ws, message)\<close>. The third argument is the outcome of
  \<^verbatim>\<open>JSON.parse(message)\<close>: \<open>Inl\<close> when it throws, the parsed value otherwise.
\<close>

definition websocket_message :: "state \<Rightarrow> nat \<Rightarrow> error + jsval \<Rightarrow> result" where
  "websocket_message s ws msg =
     (case msg of
        Inl e \<Rightarrow> returns s []
      | Inr parsed \<Rightarrow>
          (let senderId = ws; senderRole = ws_role s ws in
           if parsed = JNull \<or> parsed = JUndefined then throws s [] TypeError
           else if get_prop parsed ''type'' = JStr ''SET_ADMIN_KEY'' then
             (if senderRole = Some Admin \<and> \<not> ToBoolean (adminLongTermPublicKey s) then
                (let s' = s\<lparr>adminLongTermPublicKey := get_prop parsed ''key''\<rparr> in
                 case adminWs s' of
                   None \<Rightarrow> throws s' [] TypeError
                 | Some a \<Rightarrow>
                     returns s' [Send a (JObj [(''type'', JStr ''STATUS''),
                                            (''message'', JStr text_key_stored)])])
              else returns s [])
           else if get_prop parsed ''type'' = JStr ''REQUEST_ADMIN_KEY''
                   \<and> ToBoolean (adminLongTermPublicKey s) then
             returns s [Send ws (JObj [(''type'', JStr ''ADMIN_KEY_RESPONSE''),
                                    (''key'', adminLongTermPublicKey s)])]
           else if get_prop parsed ''type'' = JStr ''PUBLIC_KEY''
                   \<or> get_prop parsed ''type'' = JStr ''MESSAGE'' then
             (let targetId = get_prop parsed ''targetId'';
                  peerWs = findPeer s senderId senderRole targetId in
              case peerWs of
                Some p \<Rightarrow>
                  returns s [Send p (set_prop parsed ''senderId'' (JNum (int senderId)))]
              | None \<Rightarrow>
                  (case ToString (if ToBoolean targetId then targetId else JStr text_admin) of
                     Inl e \<Rightarrow> throws s [] e
                   | Inr t \<Rightarrow>
                       returns s [Send ws (JObj [(''type'', JStr ''ERROR''),
                                              (''message'', JStr (text_target_not_found @ t))])]))
           else returns s []))"

text \<open>
  \<^verbatim>\<open>websocket.open(ws)\<close>, in two steps: the assignment of \<^verbatim>\<open>ws.data.role\<close> (first
  statement) and the rest of the body, which reads the role back from the socket.
\<close>

definition assign_role :: "state \<Rightarrow> nat \<Rightarrow> state" where
  "assign_role s ws =
     s\<lparr>ws_role := (ws_role s)(ws := Some (if adminWs s \<noteq> None then User else Admin))\<rparr>"

definition open_body :: "state \<Rightarrow> nat \<Rightarrow> result" where
  "open_body s ws =
     (if ws_role s ws = Some Admin then
        (if adminWs s \<noteq> None then
           returns s [Close ws (Some (1000, ''Admin already connected''))]
         else
           returns (s\<lparr>adminWs := Some ws,
                   adminConnections := AList.update ws (ws, None) (adminConnections s)\<rparr>)
                [Send ws (JObj [(''type'', JStr ''STATUS''), (''role'', JStr ''admin'')])])
      else
        (let s' = s\<lparr>userConnections := AList.update ws ws (userConnections s)\<rparr> in
         returns s'
           (Send ws (JObj [(''type'', JStr ''STATUS''), (''role'', JStr ''user'')]) #
            (case adminWs s' of
               Some a \<Rightarrow>
                 [Send a (JObj [(''type'', JStr ''NEW_USER''),
                                (''userId'', JNum (int ws)),
                                (''message'', JStr (text_new_user ws))])]
             | None \<Rightarrow> []))))"

definition websocket_open :: "state \<Rightarrow> nat \<Rightarrow> result" where
  "websocket_open s ws = open_body (assign_role s ws) ws"

text \<open>\<^verbatim>\<open>websocket.close(ws, code, reason)\<close>; the code and the reason are only logged.\<close>

definition websocket_close :: "state \<Rightarrow> nat \<Rightarrow> result" where
  "websocket_close s ws =
     (if adminWs s = Some ws then
        returns (s\<lparr>adminWs := None,
                adminConnections := AList.delete ws (adminConnections s),
                userConnections := []\<rparr>)
             (concat (map (\<lambda>(k, user).
                  [Send user (JObj [(''type'', JStr ''STATUS''),
                                    (''message'', JStr text_admin_offline)]),
                   Close user None]) (userConnections s)))
      else
        (let s' = s\<lparr>userConnections := AList.delete ws (userConnections s)\<rparr> in
         returns s'
           (case adminWs s' of
              Some a \<Rightarrow>
                [Send a (JObj [(''type'', JStr ''USER_LEFT''),
                               (''userId'', JNum (int ws)),
                               (''message'', JStr (text_user_left ws))])]
            | None \<Rightarrow> [])))"

section \<open>Events\<close>

text \<open>
  The transport calls the handlers one at a time. \<open>Fetch\<close> is an upgrade request on
  \<^verbatim>\<open>/ws\<close>, the other events are the three socket callbacks.
\<close>

datatype event = Fetch | Open nat | Message nat "error + jsval" | Closed nat

fun handle :: "state \<Rightarrow> event \<Rightarrow> result" where
  "handle s Fetch = returns (snd (fetch_ws s)) []"
| "handle s (Open ws) = websocket_open s ws"
| "handle s (Message ws msg) = websocket_message s ws msg"
| "handle s (Closed ws) = websocket_close s ws"

fun run :: "state \<Rightarrow> event list \<Rightarrow> state" where
  "run s [] = s"
| "run s (e # es) = run (post (handle s e)) es"

text \<open>
  The states the server can be in, with the set of identifiers that \<^verbatim>\<open>fetch\<close> has
  handed to \<^verbatim>\<open>server.upgrade\<close> so far: only a socket with such an identifier is
  ever opened. Messages and closes are not restricted.
\<close>

inductive reachable :: "nat set \<Rightarrow> state \<Rightarrow> bool" where
  start: "reachable {} init_state"
| fetch: "reachable I s \<Longrightarrow> reachable (insert (fst (fetch_ws s)) I) (snd (fetch_ws s))"
| opened: "reachable I s \<Longrightarrow> ws \<in> I \<Longrightarrow> reachable I (post (websocket_open s ws))"
| message: "reachable I s \<Longrightarrow> reachable I (post (websocket_message s ws msg))"
| closed: "reachable I s \<Longrightarrow> reachable I (post (websocket_close s ws))"

text \<open>Envelopes and states used as concrete inputs below.\<close>

definition set_admin_key :: "jsval \<Rightarrow> jsval" where
  "set_admin_key k = JObj [(''type'', JStr ''SET_ADMIN_KEY''), (''key'', k)]"

definition request_admin_key :: jsval where
  "request_admin_key = JObj [(''type'', JStr ''REQUEST_ADMIN_KEY'')]"

definition admin_only :: state where
  "admin_only = run init_state [Fetch, Open 1]"

definition admin_and_user :: state where
  "admin_and_user = run init_state [Fetch, Open 1, Fetch, Open 2]"

definition key_stored :: state where
  "key_stored = run admin_and_user [Message 1 (Inr (set_admin_key (JStr ''K1'')))]"

text \<open>Object literals of the handlers, named for the statements below.\<close>

definition admin_offline_notice :: jsval where
  "admin_offline_notice =
     JObj [(''type'', JStr ''STATUS''), (''message'', JStr text_admin_offline)]"

definition user_left_event :: "nat \<Rightarrow> jsval" where
  "user_left_event ws =
     JObj [(''type'', JStr ''USER_LEFT''), (''userId'', JNum (int ws)),
           (''message'', JStr (text_user_left ws))]"

definition error_envelope :: "string \<Rightarrow> jsval" where
  "error_envelope t =
     JObj [(''type'', JStr ''ERROR''), (''message'', JStr (text_target_not_found @ t))]"

text \<open>More concrete inputs.\<close>

definition admin_and_two_users :: state where
  "admin_and_two_users = run admin_and_user [Fetch, Open 3]"

definition spoofed_message :: jsval where
  "spoofed_message =
     JObj [(''type'', JStr ''MESSAGE''), (''senderId'', JNum 99), (''payload'', JStr ''X'')]"

definition unprintable_target :: jsval where
  "unprintable_target =
     JObj [(''type'', JStr ''MESSAGE''), (''targetId'', JObj [(''toString'', JNum 1)])]"

section \<open>Frame lemmas\<close>

lemmas handler_defs =
  websocket_open_def assign_role_def open_body_def websocket_close_def websocket_message_def
  fetch_ws_def returns_def throws_def

lemmas example_defs =
  admin_only_def admin_and_user_def init_state_def set_admin_key_def request_admin_key_def

lemma typed_not_nullish:
  "get_prop parsed name = JStr t \<Longrightarrow> parsed \<noteq> JNull \<and> parsed \<noteq> JUndefined"
  by (cases parsed) simp_all

lemma get_prop_string_object: "get_prop v name = JStr t \<Longrightarrow> \<exists>fs. v = JObj fs"
  by (cases v) simp_all

lemma open_frame:
  "adminLongTermPublicKey (post (websocket_open s ws)) = adminLongTermPublicKey s"
  "nextWsId (post (websocket_open s ws)) = nextWsId s"
  by (simp_all add: handler_defs Let_def)

lemma close_frame:
  "adminLongTermPublicKey (post (websocket_close s ws)) = adminLongTermPublicKey s"
  "nextWsId (post (websocket_close s ws)) = nextWsId s"
  "ws_role (post (websocket_close s ws)) = ws_role s"
  by (simp_all add: handler_defs Let_def)

lemma message_frame:
  "adminWs (post (websocket_message s ws msg)) = adminWs s"
  "userConnections (post (websocket_message s ws msg)) = userConnections s"
  "adminConnections (post (websocket_message s ws msg)) = adminConnections s"
  "nextWsId (post (websocket_message s ws msg)) = nextWsId s"
  "ws_role (post (websocket_message s ws msg)) = ws_role s"
  by (simp_all add: handler_defs Let_def split: sum.split option.split)

text \<open>A truthy stored key survives every event.\<close>

lemma truthy_key_kept:
  "ToBoolean (adminLongTermPublicKey s) \<Longrightarrow>
   adminLongTermPublicKey (post (handle s e)) = adminLongTermPublicKey s"
  by (cases e) (simp_all add: handler_defs Let_def split: sum.split option.split)

lemma truthy_key_run:
  "ToBoolean (adminLongTermPublicKey s) \<Longrightarrow>
   adminLongTermPublicKey (run s evs) = adminLongTermPublicKey s"
proof (induction evs arbitrary: s)
  case Nil
  show ?case by simp
next
  case (Cons e evs)
  have kept: "adminLongTermPublicKey (post (handle s e)) = adminLongTermPublicKey s"
    using Cons.prems by (rule truthy_key_kept)
  then have "ToBoolean (adminLongTermPublicKey (post (handle s e)))"
    using Cons.prems by simp
  then have "adminLongTermPublicKey (run (post (handle s e)) evs)
             = adminLongTermPublicKey (post (handle s e))"
    by (rule Cons.IH)
  with kept show ?case by simp
qed

section \<open>Role arbitration\<close>

text \<open>
  Claim C1. A connection is given the role Admin exactly when no admin socket is
  recorded (\<open>adminWs\<close> is \<^verbatim>\<open>null\<close>) when \<^verbatim>\<open>open\<close> runs, and the role User exactly
  when one is; a new admin takes the admin slot, a new user leaves it alone. Hence the
  first connection after start is Admin, and so is the first connection after the
  admin's disconnect.
\<close>

theorem role_arbiter:
  "(ws_role (post (websocket_open s ws)) ws = Some Admin \<longleftrightarrow> adminWs s = None)
   \<and> (ws_role (post (websocket_open s ws)) ws = Some User \<longleftrightarrow> adminWs s \<noteq> None)
   \<and> (adminWs s = None \<longrightarrow> adminWs (post (websocket_open s ws)) = Some ws)
   \<and> (adminWs s \<noteq> None \<longrightarrow> adminWs (post (websocket_open s ws)) = adminWs s)
   \<and> ws_role (post (websocket_open (snd (fetch_ws init_state)) (fst (fetch_ws init_state))))
        (fst (fetch_ws init_state)) = Some Admin
   \<and> (adminWs s = Some a \<longrightarrow>
        ws_role (post (websocket_open (post (websocket_close s a)) ws)) ws = Some Admin)"
  by (auto simp add: handler_defs Let_def init_state_def)

theorem role_arbiter_witness:
  "adminWs admin_and_user = Some 1
   \<and> ws_role (post (websocket_open admin_and_user 3)) 3 = Some User
   \<and> adminWs (post (websocket_open admin_and_user 3)) = Some 1
   \<and> ws_role (post (websocket_open (post (websocket_close admin_and_user 1)) 3)) 3
       = Some Admin
   \<and> adminWs init_state = None
   \<and> ws_role (post (websocket_open init_state 1)) 1 = Some Admin
   \<and> adminWs (post (websocket_open init_state 1)) = Some 1"
proof -
  have a: "adminWs admin_and_user = Some 1"
    by (simp add: example_defs handler_defs)
  have b: "adminWs init_state = None"
    by (simp add: init_state_def)
  show ?thesis
    using a b role_arbiter [of admin_and_user 3 1] role_arbiter [of init_state 1]
    by simp
qed

section \<open>The admin key store\<close>

text \<open>
  Claim C2, as stated, fails. The admin's first \<^verbatim>\<open>SET_ADMIN_KEY\<close> carries the empty
  string: it is stored and acknowledged. The second one carries \<^verbatim>\<open>K2\<close> and replaces
  it, so the first write did not win.
\<close>

theorem first_write_counterexample:
  "effects (websocket_message admin_only 1 (Inr (set_admin_key (JStr ''''))))
     = [Send 1 (JObj [(''type'', JStr ''STATUS''), (''message'', JStr text_key_stored)])]
   \<and> adminLongTermPublicKey
        (run init_state [Fetch, Open 1, Message 1 (Inr (set_admin_key (JStr '''')))])
     = JStr ''''
   \<and> adminLongTermPublicKey
        (run init_state [Fetch, Open 1, Message 1 (Inr (set_admin_key (JStr ''''))),
                         Message 1 (Inr (set_admin_key (JStr ''K2'')))])
     = JStr ''K2''"
  by (simp add: example_defs handler_defs)

text \<open>
  Claim C2, amended. Once a truthy key value is stored, a \<^verbatim>\<open>SET_ADMIN_KEY\<close> message
  from anyone leaves the whole state as it is, the stored key is the same after any
  sequence of events, and every later \<^verbatim>\<open>REQUEST_ADMIN_KEY\<close> is answered with that
  key.
\<close>

theorem first_truthy_write_wins:
  "ToBoolean (adminLongTermPublicKey s) \<Longrightarrow>
     (get_prop parsed ''type'' = JStr ''SET_ADMIN_KEY'' \<longrightarrow>
        post (websocket_message s ws (Inr parsed)) = s)
   \<and> adminLongTermPublicKey (run s evs) = adminLongTermPublicKey s
   \<and> (get_prop request ''type'' = JStr ''REQUEST_ADMIN_KEY'' \<longrightarrow>
        effects (websocket_message (run s evs) reader (Inr request))
          = [Send reader (JObj [(''type'', JStr ''ADMIN_KEY_RESPONSE''),
                                (''key'', adminLongTermPublicKey s)])])"
proof (intro conjI impI)
  assume t: "ToBoolean (adminLongTermPublicKey s)"
  { assume "get_prop parsed ''type'' = JStr ''SET_ADMIN_KEY''"
    with t show "post (websocket_message s ws (Inr parsed)) = s"
      by (simp add: handler_defs typed_not_nullish) }
  from t show k: "adminLongTermPublicKey (run s evs) = adminLongTermPublicKey s"
    by (rule truthy_key_run)
  { assume r: "get_prop request ''type'' = JStr ''REQUEST_ADMIN_KEY''"
    with t k
    show "effects (websocket_message (run s evs) reader (Inr request))
          = [Send reader (JObj [(''type'', JStr ''ADMIN_KEY_RESPONSE''),
                                (''key'', adminLongTermPublicKey s)])]"
      by (simp add: handler_defs typed_not_nullish) }
qed

theorem first_truthy_write_wins_witness:
  "ToBoolean (JStr ''K1'')
   \<and> adminLongTermPublicKey
       (run init_state [Fetch, Open 1, Message 1 (Inr (set_admin_key (JStr ''K1''))),
                        Message 1 (Inr (set_admin_key (JStr ''K2'')))]) = JStr ''K1''
   \<and> effects (websocket_message
        (run init_state [Fetch, Open 1, Message 1 (Inr (set_admin_key (JStr ''K1''))),
                         Message 1 (Inr (set_admin_key (JStr ''K2''))), Fetch, Open 2])
        2 (Inr request_admin_key))
     = [Send 2 (JObj [(''type'', JStr ''ADMIN_KEY_RESPONSE''), (''key'', JStr ''K1'')])]"
proof -
  define s where
    "s = run init_state [Fetch, Open 1, Message 1 (Inr (set_admin_key (JStr ''K1'')))]"
  have k: "adminLongTermPublicKey s = JStr ''K1''"
    by (simp add: s_def example_defs handler_defs)
  then have t: "ToBoolean (adminLongTermPublicKey s)" by simp
  have r: "get_prop request_admin_key ''type'' = JStr ''REQUEST_ADMIN_KEY''"
    by (simp add: request_admin_key_def)
  have p: "get_prop (set_admin_key (JStr ''K2'')) ''type'' = JStr ''SET_ADMIN_KEY''"
    by (simp add: set_admin_key_def)
  note w = first_truthy_write_wins [OF t, of "set_admin_key (JStr ''K2'')" 1
      "[Message 1 (Inr (set_admin_key (JStr ''K2''))), Fetch, Open 2]" request_admin_key 2]
  have a: "run s [Message 1 (Inr (set_admin_key (JStr ''K2'')))] = s"
    using w p by simp
  have b: "run init_state [Fetch, Open 1, Message 1 (Inr (set_admin_key (JStr ''K1''))),
                           Message 1 (Inr (set_admin_key (JStr ''K2'')))] = s"
    using a by (simp add: s_def)
  have c: "run init_state [Fetch, Open 1, Message 1 (Inr (set_admin_key (JStr ''K1''))),
                           Message 1 (Inr (set_admin_key (JStr ''K2''))), Fetch, Open 2]
           = run s [Message 1 (Inr (set_admin_key (JStr ''K2''))), Fetch, Open 2]"
    by (simp add: s_def)
  show ?thesis
    using w r k b c by simp
qed

text \<open>
  Claim C9. What the key store tests is truthiness. A \<^verbatim>\<open>SET_ADMIN_KEY\<close> from the
  admin stores the envelope's \<^verbatim>\<open>key\<close> when the stored value is falsy and changes
  nothing when it is truthy; while the stored value is falsy (also a falsy value that an
  earlier \<^verbatim>\<open>SET_ADMIN_KEY\<close> stored), a \<^verbatim>\<open>REQUEST_ADMIN_KEY\<close> is not answered.
\<close>

theorem key_absence_is_falsiness:
  "ws_role s ws = Some Admin \<Longrightarrow> get_prop parsed ''type'' = JStr ''SET_ADMIN_KEY'' \<Longrightarrow>
     (\<not> ToBoolean (adminLongTermPublicKey s) \<longrightarrow>
        adminLongTermPublicKey (post (websocket_message s ws (Inr parsed)))
          = get_prop parsed ''key'')
   \<and> (ToBoolean (adminLongTermPublicKey s) \<longrightarrow>
        post (websocket_message s ws (Inr parsed)) = s)
   \<and> (\<not> ToBoolean (adminLongTermPublicKey s) \<and>
        get_prop request ''type'' = JStr ''REQUEST_ADMIN_KEY'' \<longrightarrow>
        effects (websocket_message s reader (Inr request)) = []
        \<and> post (websocket_message s reader (Inr request)) = s)"
  by (auto simp add: handler_defs typed_not_nullish Let_def split: option.split)

theorem key_absence_is_falsiness_witness:
  "ws_role (run admin_only [Message 1 (Inr (set_admin_key (JStr '''')))]) 1 = Some Admin
   \<and> adminLongTermPublicKey (run admin_only [Message 1 (Inr (set_admin_key (JStr '''')))])
       = JStr ''''
   \<and> adminLongTermPublicKey
       (post (websocket_message (run admin_only [Message 1 (Inr (set_admin_key (JStr '''')))])
          1 (Inr (set_admin_key (JStr ''K2''))))) = JStr ''K2''
   \<and> effects (websocket_message (run admin_only [Message 1 (Inr (set_admin_key (JStr '''')))])
        1 (Inr request_admin_key)) = []"
proof -
  define s where "s = run admin_only [Message 1 (Inr (set_admin_key (JStr '''')))]"
  have a: "ws_role s 1 = Some Admin"
    by (simp add: s_def example_defs handler_defs)
  have k: "adminLongTermPublicKey s = JStr ''''"
    by (simp add: s_def example_defs handler_defs)
  have p: "get_prop (set_admin_key (JStr ''K2'')) ''type'' = JStr ''SET_ADMIN_KEY''"
    by (simp add: set_admin_key_def)
  have r: "get_prop request_admin_key ''type'' = JStr ''REQUEST_ADMIN_KEY''"
    by (simp add: request_admin_key_def)
  have v: "get_prop (set_admin_key (JStr ''K2'')) ''key'' = JStr ''K2''"
    by (simp add: set_admin_key_def)
  show ?thesis
    unfolding s_def [symmetric]
    using a k r v key_absence_is_falsiness [OF a p, of request_admin_key 1]
    by simp
qed

section \<open>Protocol misuse\<close>

text \<open>
  Claim C6, as stated, fails. The store holds the empty string, which the admin's first
  \<^verbatim>\<open>SET_ADMIN_KEY\<close> put there. The admin's second \<^verbatim>\<open>SET_ADMIN_KEY\<close> is not
  ignored: it is acknowledged with a \<^verbatim>\<open>STATUS\<close> message and it changes the state.
\<close>

theorem misuse_counterexample:
  "effects (websocket_message
      (run init_state [Fetch, Open 1, Message 1 (Inr (set_admin_key (JStr '''')))])
      1 (Inr (set_admin_key (JStr ''K2''))))
     = [Send 1 (JObj [(''type'', JStr ''STATUS''), (''message'', JStr text_key_stored)])]
   \<and> post (websocket_message
      (run init_state [Fetch, Open 1, Message 1 (Inr (set_admin_key (JStr '''')))])
      1 (Inr (set_admin_key (JStr ''K2''))))
     \<noteq> run init_state [Fetch, Open 1, Message 1 (Inr (set_admin_key (JStr '''')))]"
proof -
  define s where "s = run init_state [Fetch, Open 1, Message 1 (Inr (set_admin_key (JStr '''')))]"
  have e: "effects (websocket_message s 1 (Inr (set_admin_key (JStr ''K2''))))
     = [Send 1 (JObj [(''type'', JStr ''STATUS''), (''message'', JStr text_key_stored)])]"
    by (simp add: s_def example_defs handler_defs)
  have k: "adminLongTermPublicKey s = JStr ''''"
    by (simp add: s_def example_defs handler_defs)
  have k': "adminLongTermPublicKey (post (websocket_message s 1 (Inr (set_admin_key (JStr ''K2'')))))
              = JStr ''K2''"
    by (simp add: s_def example_defs handler_defs)
  from k k' have "post (websocket_message s 1 (Inr (set_admin_key (JStr ''K2'')))) \<noteq> s"
    by auto
  with e show ?thesis unfolding s_def [symmetric] by simp
qed

text \<open>
  Claim C6, amended. A \<^verbatim>\<open>SET_ADMIN_KEY\<close> from a sender that is not the admin, a
  \<^verbatim>\<open>SET_ADMIN_KEY\<close> while the stored key is truthy, and a \<^verbatim>\<open>REQUEST_ADMIN_KEY\<close>
  while the stored key is falsy each send nothing, change nothing and throw nothing.
\<close>

theorem misuse_ignored:
  "(get_prop parsed ''type'' = JStr ''SET_ADMIN_KEY'' \<and>
      (ws_role s ws \<noteq> Some Admin \<or> ToBoolean (adminLongTermPublicKey s))
    \<or> get_prop parsed ''type'' = JStr ''REQUEST_ADMIN_KEY'' \<and>
      \<not> ToBoolean (adminLongTermPublicKey s)) \<Longrightarrow>
   effects (websocket_message s ws (Inr parsed)) = []
   \<and> post (websocket_message s ws (Inr parsed)) = s
   \<and> thrown (websocket_message s ws (Inr parsed)) = None"
  by (auto simp add: handler_defs typed_not_nullish)

theorem misuse_ignored_witness:
  "ws_role admin_and_user 2 \<noteq> Some Admin
   \<and> websocket_message admin_and_user 2 (Inr (set_admin_key (JStr ''K'')))
       = returns admin_and_user []
   \<and> \<not> ToBoolean (adminLongTermPublicKey admin_and_user)
   \<and> websocket_message admin_and_user 2 (Inr request_admin_key) = returns admin_and_user []
   \<and> ToBoolean (adminLongTermPublicKey
        (run admin_and_user [Message 1 (Inr (set_admin_key (JStr ''K1'')))]))
   \<and> websocket_message (run admin_and_user [Message 1 (Inr (set_admin_key (JStr ''K1'')))])
        1 (Inr (set_admin_key (JStr ''K2'')))
       = returns (run admin_and_user [Message 1 (Inr (set_admin_key (JStr ''K1'')))]) []"
proof -
  define s where "s = run admin_and_user [Message 1 (Inr (set_admin_key (JStr ''K1'')))]"
  have u: "ws_role admin_and_user 2 \<noteq> Some Admin"
    by (simp add: example_defs handler_defs)
  have n: "\<not> ToBoolean (adminLongTermPublicKey admin_and_user)"
    by (simp add: example_defs handler_defs)
  have t: "ToBoolean (adminLongTermPublicKey s)"
    by (simp add: s_def example_defs handler_defs)
  have p: "get_prop (set_admin_key k) ''type'' = JStr ''SET_ADMIN_KEY''" for k
    by (simp add: set_admin_key_def)
  have r: "get_prop request_admin_key ''type'' = JStr ''REQUEST_ADMIN_KEY''"
    by (simp add: request_admin_key_def)
  have eq: "effects x = [] \<and> post x = y \<and> thrown x = None \<Longrightarrow> x = returns y []"
    for x :: result and y
    by (cases x) (simp add: returns_def)
  have 1: "websocket_message admin_and_user 2 (Inr (set_admin_key (JStr ''K'')))
       = returns admin_and_user []"
    using misuse_ignored [of "set_admin_key (JStr ''K'')" admin_and_user 2] u p
    by (intro eq) simp
  have 2: "websocket_message admin_and_user 2 (Inr request_admin_key) = returns admin_and_user []"
    using misuse_ignored [of request_admin_key admin_and_user 2] n r
    by (intro eq) simp
  have 3: "websocket_message s 1 (Inr (set_admin_key (JStr ''K2''))) = returns s []"
    using misuse_ignored [of "set_admin_key (JStr ''K2'')" s 1] t p
    by (intro eq) simp
  from u n t 1 2 3 show ?thesis unfolding s_def [symmetric] by simp
qed

section \<open>A connection that finds the admin slot taken\<close>

text \<open>
  The admin branch of \<^verbatim>\<open>open\<close> starts with a guard: a socket that has the role Admin
  while the admin slot is taken is closed with code 1000 and registered nowhere. The
  role is Admin only when the slot was empty at the assignment, and no other handler
  runs between the assignment and the guard. So no run of \<^verbatim>\<open>open\<close> meets the guard's
  condition, no run of \<^verbatim>\<open>open\<close> closes a socket, and a connection that arrives while
  an admin is recorded is a user. A second socket with the role Admin could come only
  from a handler running between the two statements, which is outside this model.
\<close>

lemma guard_unreachable:
  "\<not> (ws_role (assign_role s ws) ws = Some Admin \<and> adminWs (assign_role s ws) \<noteq> None)"
  by (simp add: assign_role_def)

lemma open_never_closes: "Close w c \<notin> set (effects (websocket_open s ws))"
  by (auto simp add: handler_defs Let_def split: option.split)

lemma later_connection_is_user:
  "adminWs s = Some a \<Longrightarrow>
     ws_role (post (websocket_open s ws)) ws = Some User
   \<and> map_of (userConnections (post (websocket_open s ws))) ws = Some ws
   \<and> adminWs (post (websocket_open s ws)) = Some a
   \<and> adminConnections (post (websocket_open s ws)) = adminConnections s
   \<and> effects (websocket_open s ws)
       = [Send ws (JObj [(''type'', JStr ''STATUS''), (''role'', JStr ''user'')]),
          Send a (JObj [(''type'', JStr ''NEW_USER''), (''userId'', JNum (int ws)),
                        (''message'', JStr (text_new_user ws))])]"
  by (auto simp add: handler_defs Let_def AList.update_conv' split: option.split)

text \<open>What the guard does on a state that meets its condition.\<close>

lemma guard_effect:
  "ws_role s ws = Some Admin \<Longrightarrow> adminWs s = Some a \<Longrightarrow>
   open_body s ws = returns s [Close ws (Some (1000, ''Admin already connected''))]"
  by (simp add: open_body_def)

section \<open>The key across disconnects\<close>

text \<open>
  Claim C8. No disconnect changes the stored admin key, the admin's own included. After
  the admin's disconnect the next connection becomes the admin, finds the same stored
  key, and is answered with it when it asks for the key.
\<close>

theorem key_survives_disconnect:
  "adminLongTermPublicKey (post (websocket_close s ws)) = adminLongTermPublicKey s
   \<and> (adminWs s = Some a \<longrightarrow>
        ws_role (post (websocket_open (post (websocket_close s a)) b)) b = Some Admin
        \<and> adminWs (post (websocket_open (post (websocket_close s a)) b)) = Some b
        \<and> adminLongTermPublicKey (post (websocket_open (post (websocket_close s a)) b))
            = adminLongTermPublicKey s
        \<and> (ToBoolean (adminLongTermPublicKey s) \<and>
            get_prop request ''type'' = JStr ''REQUEST_ADMIN_KEY'' \<longrightarrow>
             effects (websocket_message (post (websocket_open (post (websocket_close s a)) b))
                        b (Inr request))
               = [Send b (JObj [(''type'', JStr ''ADMIN_KEY_RESPONSE''),
                                (''key'', adminLongTermPublicKey s)])]))"
  by (auto simp add: handler_defs Let_def typed_not_nullish)

theorem key_survives_disconnect_witness:
  "adminWs key_stored = Some 1
   \<and> adminLongTermPublicKey key_stored = JStr ''K1''
   \<and> adminLongTermPublicKey (post (websocket_close key_stored 1)) = JStr ''K1''
   \<and> adminLongTermPublicKey (post (websocket_close key_stored 2)) = JStr ''K1''
   \<and> ws_role (post (websocket_open (post (websocket_close key_stored 1)) 3)) 3 = Some Admin
   \<and> effects (websocket_message (post (websocket_open (post (websocket_close key_stored 1)) 3))
                3 (Inr request_admin_key))
       = [Send 3 (JObj [(''type'', JStr ''ADMIN_KEY_RESPONSE''), (''key'', JStr ''K1'')])]"
proof -
  have a: "adminWs key_stored = Some 1"
    by (simp add: key_stored_def example_defs handler_defs)
  have k: "adminLongTermPublicKey key_stored = JStr ''K1''"
    by (simp add: key_stored_def example_defs handler_defs)
  have r: "get_prop request_admin_key ''type'' = JStr ''REQUEST_ADMIN_KEY''"
    by (simp add: request_admin_key_def)
  show ?thesis
    using a k r key_survives_disconnect [of key_stored 1 1 3 request_admin_key]
      key_survives_disconnect [of key_stored 2 1 3 request_admin_key]
    by simp
qed

section \<open>Disconnects\<close>

lemma admin_close:
  "adminWs s = Some ws \<Longrightarrow>
   websocket_close s ws =
     returns (s\<lparr>adminWs := None, adminConnections := AList.delete ws (adminConnections s),
               userConnections := []\<rparr>)
       (concat (map (\<lambda>(k, user). [Send user admin_offline_notice, Close user None])
                  (userConnections s)))"
  by (simp add: websocket_close_def admin_offline_notice_def)

lemma user_close:
  "adminWs s \<noteq> Some ws \<Longrightarrow>
   websocket_close s ws =
     returns (s\<lparr>userConnections := AList.delete ws (userConnections s)\<rparr>)
       (case adminWs s of Some a \<Rightarrow> [Send a (user_left_event ws)] | None \<Rightarrow> [])"
  by (simp add: websocket_close_def user_left_event_def Let_def returns_def split: option.split)

text \<open>
  Claim C5. When the admin's socket closes, every registered user is sent the
  \<^verbatim>\<open>STATUS\<close> notice and is closed, nothing else is sent or closed, and afterwards
  the admin slot is empty, the user table is empty and the admin has no entry in the
  admin table. When another socket closes, its entry leaves the user table, every other
  entry, the admin slot and the admin table stay as they are, and the admin, if there is
  one, is sent exactly one \<^verbatim>\<open>USER_LEFT\<close> event with the identifier of the closed
  socket; with no admin nothing is sent.
\<close>

theorem disconnect_cleanup:
  "(adminWs s = Some ws \<longrightarrow>
      (\<forall>u \<in> snd ` set (userConnections s).
          Send u admin_offline_notice \<in> set (effects (websocket_close s ws))
          \<and> Close u None \<in> set (effects (websocket_close s ws)))
    \<and> (\<forall>e \<in> set (effects (websocket_close s ws)).
          \<exists>u \<in> snd ` set (userConnections s). e = Send u admin_offline_notice \<or> e = Close u None)
    \<and> adminWs (post (websocket_close s ws)) = None
    \<and> userConnections (post (websocket_close s ws)) = []
    \<and> map_of (adminConnections (post (websocket_close s ws))) ws = None)
   \<and> (adminWs s \<noteq> Some ws \<longrightarrow>
      map_of (userConnections (post (websocket_close s ws))) ws = None
    \<and> (\<forall>k. k \<noteq> ws \<longrightarrow>
          map_of (userConnections (post (websocket_close s ws))) k
            = map_of (userConnections s) k)
    \<and> adminWs (post (websocket_close s ws)) = adminWs s
    \<and> adminConnections (post (websocket_close s ws)) = adminConnections s
    \<and> (\<forall>a. adminWs s = Some a \<longrightarrow>
          effects (websocket_close s ws) = [Send a (user_left_event ws)])
    \<and> (adminWs s = None \<longrightarrow> effects (websocket_close s ws) = []))"
proof (intro conjI impI)
  assume a: "adminWs s = Some ws"
  show "\<forall>u \<in> snd ` set (userConnections s).
          Send u admin_offline_notice \<in> set (effects (websocket_close s ws))
          \<and> Close u None \<in> set (effects (websocket_close s ws))"
    by (force simp add: admin_close [OF a] returns_def)
  show "\<forall>e \<in> set (effects (websocket_close s ws)).
          \<exists>u \<in> snd ` set (userConnections s). e = Send u admin_offline_notice \<or> e = Close u None"
    by (force simp add: admin_close [OF a] returns_def)
  show "adminWs (post (websocket_close s ws)) = None"
    by (simp add: admin_close [OF a] returns_def)
  show "userConnections (post (websocket_close s ws)) = []"
    by (simp add: admin_close [OF a] returns_def)
  show "map_of (adminConnections (post (websocket_close s ws))) ws = None"
    by (simp add: admin_close [OF a] returns_def AList.delete_conv)
next
  assume u: "adminWs s \<noteq> Some ws"
  show "map_of (userConnections (post (websocket_close s ws))) ws = None"
    by (simp add: user_close [OF u] returns_def AList.delete_conv)
  show "\<forall>k. k \<noteq> ws \<longrightarrow>
          map_of (userConnections (post (websocket_close s ws))) k
            = map_of (userConnections s) k"
    by (simp add: user_close [OF u] returns_def AList.delete_conv)
  show "adminWs (post (websocket_close s ws)) = adminWs s"
    by (simp add: user_close [OF u] returns_def)
  show "adminConnections (post (websocket_close s ws)) = adminConnections s"
    by (simp add: user_close [OF u] returns_def)
  show "\<forall>a. adminWs s = Some a \<longrightarrow>
          effects (websocket_close s ws) = [Send a (user_left_event ws)]"
    by (simp add: user_close [OF u] returns_def)
  { assume "adminWs s = None"
    then show "effects (websocket_close s ws) = []"
      by (simp add: user_close [OF u] returns_def) }
qed

theorem disconnect_cleanup_witness:
  "adminWs admin_and_two_users = Some 1
   \<and> userConnections admin_and_two_users = [(2, 2), (3, 3)]
   \<and> Send 2 admin_offline_notice \<in> set (effects (websocket_close admin_and_two_users 1))
   \<and> Close 2 None \<in> set (effects (websocket_close admin_and_two_users 1))
   \<and> Send 3 admin_offline_notice \<in> set (effects (websocket_close admin_and_two_users 1))
   \<and> Close 3 None \<in> set (effects (websocket_close admin_and_two_users 1))
   \<and> adminWs (post (websocket_close admin_and_two_users 1)) = None
   \<and> userConnections (post (websocket_close admin_and_two_users 1)) = []
   \<and> map_of (userConnections (post (websocket_close admin_and_two_users 2))) 2 = None
   \<and> map_of (userConnections (post (websocket_close admin_and_two_users 2))) 3 = Some 3
   \<and> adminWs (post (websocket_close admin_and_two_users 2)) = Some 1
   \<and> effects (websocket_close admin_and_two_users 2) = [Send 1 (user_left_event 2)]"
proof -
  have a: "adminWs admin_and_two_users = Some 1"
    by (simp add: admin_and_two_users_def example_defs handler_defs)
  have u: "userConnections admin_and_two_users = [(2, 2), (3, 3)]"
    by (simp add: admin_and_two_users_def example_defs handler_defs)
  show ?thesis
    using a u disconnect_cleanup [of admin_and_two_users 1]
      disconnect_cleanup [of admin_and_two_users 2]
    by simp
qed

section \<open>Forwarding\<close>

text \<open>The handler on an envelope of type \<^verbatim>\<open>PUBLIC_KEY\<close> or \<^verbatim>\<open>MESSAGE\<close>.\<close>

lemma forward_step:
  assumes ty: "get_prop parsed ''type'' = JStr t" and t: "t = ''PUBLIC_KEY'' \<or> t = ''MESSAGE''"
  shows "websocket_message s ws (Inr parsed) =
     (case findPeer s ws (ws_role s ws) (get_prop parsed ''targetId'') of
        Some p \<Rightarrow> returns s [Send p (set_prop parsed ''senderId'' (JNum (int ws)))]
      | None \<Rightarrow>
          (case ToString (if ToBoolean (get_prop parsed ''targetId'')
                          then get_prop parsed ''targetId'' else JStr text_admin) of
             Inl e \<Rightarrow> throws s [] e
           | Inr txt \<Rightarrow> returns s [Send ws (error_envelope txt)]))"
  using t typed_not_nullish [OF ty]
  by (auto simp add: websocket_message_def ty Let_def error_envelope_def
      split: option.split sum.split)

lemma stamped_fields:
  "get_prop (set_prop (JObj fs) name x) name = x"
  "name' \<noteq> name \<Longrightarrow> get_prop (set_prop (JObj fs) name x) name' = get_prop (JObj fs) name'"
  by (simp_all add: AList.update_conv')

text \<open>
  Claim C4. When the peer of a \<^verbatim>\<open>PUBLIC_KEY\<close> or \<^verbatim>\<open>MESSAGE\<close> envelope is found,
  the handler sends exactly one message, to that peer, and changes nothing. The
  delivered envelope has \<^verbatim>\<open>senderId\<close> equal to the sender's identifier; every other
  field of it is the field of the inbound envelope, and its field names are those of the
  inbound envelope and \<^verbatim>\<open>senderId\<close>.
\<close>

theorem forwarding_preserves_fields:
  assumes "get_prop parsed ''type'' = JStr t"
    and "t = ''PUBLIC_KEY'' \<or> t = ''MESSAGE''"
    and "findPeer s ws (ws_role s ws) (get_prop parsed ''targetId'') = Some p"
  shows "\<exists>delivered fs fs'.
       websocket_message s ws (Inr parsed) = returns s [Send p delivered]
     \<and> get_prop delivered ''senderId'' = JNum (int ws)
     \<and> (\<forall>name. name \<noteq> ''senderId'' \<longrightarrow> get_prop delivered name = get_prop parsed name)
     \<and> parsed = JObj fs \<and> delivered = JObj fs'
     \<and> set (map fst fs') = insert ''senderId'' (set (map fst fs))"
proof -
  obtain fs where fs: "parsed = JObj fs"
    using assms(1) get_prop_string_object by blast
  let ?d = "set_prop parsed ''senderId'' (JNum (int ws))"
  have "websocket_message s ws (Inr parsed) = returns s [Send p ?d]"
    using forward_step [OF assms(1,2)] assms(3) by simp
  moreover have "get_prop ?d ''senderId'' = JNum (int ws)"
    unfolding fs by (rule stamped_fields)
  moreover have "\<forall>name. name \<noteq> ''senderId'' \<longrightarrow> get_prop ?d name = get_prop parsed name"
    unfolding fs using stamped_fields(2) by blast
  moreover have "?d = JObj (AList.update ''senderId'' (JNum (int ws)) fs)"
    by (simp add: fs)
  moreover have "set (map fst (AList.update ''senderId'' (JNum (int ws)) fs))
                 = insert ''senderId'' (set (map fst fs))"
    using AList.dom_update [of "''senderId''" "JNum (int ws)" fs] by simp
  ultimately show ?thesis
    using fs by blast
qed

theorem forwarding_preserves_fields_witness:
  "get_prop spoofed_message ''type'' = JStr ''MESSAGE''
   \<and> findPeer admin_and_user 2 (ws_role admin_and_user 2) (get_prop spoofed_message ''targetId'')
       = Some 1
   \<and> (\<exists>delivered.
        websocket_message admin_and_user 2 (Inr spoofed_message)
          = returns admin_and_user [Send 1 delivered]
        \<and> get_prop delivered ''senderId'' = JNum 2
        \<and> get_prop delivered ''payload'' = JStr ''X''
        \<and> get_prop delivered ''type'' = JStr ''MESSAGE'')"
proof -
  have ty: "get_prop spoofed_message ''type'' = JStr ''MESSAGE''"
    by (simp add: spoofed_message_def)
  have peer: "findPeer admin_and_user 2 (ws_role admin_and_user 2)
                (get_prop spoofed_message ''targetId'') = Some 1"
    by (simp add: findPeer_def spoofed_message_def example_defs handler_defs)
  have pl: "get_prop spoofed_message ''payload'' = JStr ''X''"
    by (simp add: spoofed_message_def)
  from forwarding_preserves_fields [OF ty _ peer]
  obtain delivered where d:
    "websocket_message admin_and_user 2 (Inr spoofed_message)
       = returns admin_and_user [Send 1 delivered]"
    "get_prop delivered ''senderId'' = JNum (int 2)"
    "\<forall>name. name \<noteq> ''senderId'' \<longrightarrow> get_prop delivered name = get_prop spoofed_message name"
    by blast
  from d(3) have "get_prop delivered ''payload'' = get_prop spoofed_message ''payload''"
    and "get_prop delivered ''type'' = get_prop spoofed_message ''type''"
    by simp_all
  with d(1,2) pl ty have "\<exists>delivered.
        websocket_message admin_and_user 2 (Inr spoofed_message)
          = returns admin_and_user [Send 1 delivered]
        \<and> get_prop delivered ''senderId'' = JNum 2
        \<and> get_prop delivered ''payload'' = JStr ''X''
        \<and> get_prop delivered ''type'' = JStr ''MESSAGE''"
    by (intro exI [of _ delivered]) simp
  with ty peer show ?thesis by simp
qed

text \<open>
  Claim C10. Whatever the handler sends out with the type of an inbound \<^verbatim>\<open>PUBLIC_KEY\<close>
  or \<^verbatim>\<open>MESSAGE\<close> envelope carries the identifier of the sending socket as
  \<^verbatim>\<open>senderId\<close>, whatever \<^verbatim>\<open>senderId\<close> the inbound envelope had.
\<close>

theorem sender_id_not_spoofable:
  assumes "get_prop parsed ''type'' = JStr t"
    and "t = ''PUBLIC_KEY'' \<or> t = ''MESSAGE''"
    and "Send p d \<in> set (effects (websocket_message s ws (Inr parsed)))"
    and "get_prop d ''type'' = JStr t"
  shows "get_prop d ''senderId'' = JNum (int ws)"
proof -
  obtain fs where fs: "parsed = JObj fs"
    using assms(1) get_prop_string_object by blast
  have "d = set_prop parsed ''senderId'' (JNum (int ws))"
    using assms(2,3,4) unfolding forward_step [OF assms(1,2)]
    by (auto simp add: returns_def throws_def error_envelope_def
        split: option.splits sum.splits)
  then show ?thesis
    unfolding fs by (simp add: AList.update_conv')
qed

theorem sender_id_not_spoofable_witness:
  "get_prop spoofed_message ''senderId'' = JNum 99
   \<and> effects (websocket_message admin_and_user 2 (Inr spoofed_message))
       = [Send 1 (JObj [(''type'', JStr ''MESSAGE''), (''senderId'', JNum 2),
                        (''payload'', JStr ''X'')])]
   \<and> get_prop (JObj [(''type'', JStr ''MESSAGE''), (''senderId'', JNum 2),
                     (''payload'', JStr ''X'')]) ''senderId'' = JNum 2"
proof -
  let ?d = "JObj [(''type'', JStr ''MESSAGE''), (''senderId'', JNum 2), (''payload'', JStr ''X'')]"
  have ty: "get_prop spoofed_message ''type'' = JStr ''MESSAGE''"
    by (simp add: spoofed_message_def)
  have e: "effects (websocket_message admin_and_user 2 (Inr spoofed_message)) = [Send 1 ?d]"
    by (simp add: findPeer_def spoofed_message_def example_defs handler_defs)
  then have m: "Send 1 ?d \<in> set (effects (websocket_message admin_and_user 2 (Inr spoofed_message)))"
    by simp
  have dt: "get_prop ?d ''type'' = JStr ''MESSAGE''"
    by simp
  have "get_prop ?d ''senderId'' = JNum (int 2)"
    using ty m dt by (rule sender_id_not_spoofable [OF _ disjI2 [OF refl]])
  with e show ?thesis by (simp add: spoofed_message_def)
qed

section \<open>Peer resolution\<close>

text \<open>
  Identifiers start at 1, and only issued identifiers are keys of the user table. Hence
  a \<^verbatim>\<open>targetId\<close> under which a user is registered is truthy.
\<close>

lemma open_user_keys:
  "fst ` set (userConnections (post (websocket_open s ws)))
     \<subseteq> insert ws (fst ` set (userConnections s))"
  by (auto simp add: handler_defs Let_def AList.dom_update)

lemma close_user_keys:
  "fst ` set (userConnections (post (websocket_close s ws))) \<subseteq> fst ` set (userConnections s)"
  by (auto simp add: handler_defs Let_def AList.delete_eq)

lemma issued_identifiers:
  "reachable I s \<Longrightarrow>
   fst ` set (userConnections s) \<subseteq> I \<and> 1 \<le> nextWsId s
   \<and> (\<forall>i \<in> I. 1 \<le> i \<and> i < nextWsId s)"
proof (induction rule: reachable.induct)
  case start
  show ?case by (simp add: init_state_def)
next
  case (fetch I s)
  then show ?case by (auto simp add: fetch_ws_def)
next
  case (opened I s ws)
  then show ?case using open_user_keys [of s ws] by (auto simp add: open_frame)
next
  case (message I s ws msg)
  then show ?case by (simp add: message_frame)
next
  case (closed I s ws)
  then show ?case using close_user_keys [of s ws] by (auto simp add: close_frame)
qed

lemma registered_target_truthy:
  assumes "reachable I s" and "Map_get (userConnections s) v = Some u"
  shows "ToBoolean v \<and> v \<noteq> JUndefined"
proof (cases v)
  case (JNum n)
  with assms(2) have n: "0 \<le> n" and m: "map_of (userConnections s) (nat n) = Some u"
    by (simp_all split: if_splits)
  from m have "nat n \<in> fst ` set (userConnections s)"
    by (meson domI dom_map_of_conv_image_fst [THEN equalityD1, THEN subsetD] domIff
        map_of_eq_None_iff option.distinct(1))
  with issued_identifiers [OF assms(1)] have "1 \<le> nat n" by blast
  with JNum show ?thesis by simp
qed (use assms(2) in simp_all)

text \<open>
  Resolution of the peer, for an envelope whose \<^verbatim>\<open>targetId\<close> (or the admin label
  standing in for a falsy one) converts to text. An admin's envelope goes to the user
  registered under \<^verbatim>\<open>targetId\<close>, a user's envelope to the admin; when there is no
  such peer the sender gets one \<^verbatim>\<open>ERROR\<close> envelope. Nothing else is sent, no socket
  is closed and the state is unchanged.
\<close>

lemma resolution_when_printable:
  assumes r: "reachable I s"
    and ty: "get_prop parsed ''type'' = JStr t" and t: "t = ''PUBLIC_KEY'' \<or> t = ''MESSAGE''"
    and printable: "ToString (if ToBoolean (get_prop parsed ''targetId'')
                        then get_prop parsed ''targetId'' else JStr text_admin) = Inr txt"
  shows "(ws_role s ws = Some Admin \<longrightarrow>
            websocket_message s ws (Inr parsed) =
              (case Map_get (userConnections s) (get_prop parsed ''targetId'') of
                 Some user \<Rightarrow>
                   returns s [Send user (set_prop parsed ''senderId'' (JNum (int ws)))]
               | None \<Rightarrow> returns s [Send ws (error_envelope txt)]))
       \<and> (ws_role s ws = Some User \<longrightarrow>
            websocket_message s ws (Inr parsed) =
              (case adminWs s of
                 Some a \<Rightarrow> returns s [Send a (set_prop parsed ''senderId'' (JNum (int ws)))]
               | None \<Rightarrow> returns s [Send ws (error_envelope txt)]))"
proof (intro conjI impI)
  assume a: "ws_role s ws = Some Admin"
  show "websocket_message s ws (Inr parsed) =
          (case Map_get (userConnections s) (get_prop parsed ''targetId'') of
             Some user \<Rightarrow> returns s [Send user (set_prop parsed ''senderId'' (JNum (int ws)))]
           | None \<Rightarrow> returns s [Send ws (error_envelope txt)])"
  proof (cases "Map_get (userConnections s) (get_prop parsed ''targetId'')")
    case None
    then have "findPeer s ws (Some Admin) (get_prop parsed ''targetId'') = None"
      by (simp add: findPeer_def Let_def)
    with None a printable show ?thesis
      by (auto simp add: forward_step [OF ty t] split: if_split_asm)
  next
    case (Some u)
    from registered_target_truthy [OF r Some]
    have "findPeer s ws (Some Admin) (get_prop parsed ''targetId'') = Some u"
      using Some by (simp add: findPeer_def Let_def)
    with Some a show ?thesis
      by (simp add: forward_step [OF ty t])
  qed
next
  assume u: "ws_role s ws = Some User"
  then have "findPeer s ws (ws_role s ws) (get_prop parsed ''targetId'') = adminWs s"
    by (simp add: findPeer_def Let_def)
  with printable show "websocket_message s ws (Inr parsed) =
          (case adminWs s of
             Some a \<Rightarrow> returns s [Send a (set_prop parsed ''senderId'' (JNum (int ws)))]
           | None \<Rightarrow> returns s [Send ws (error_envelope txt)])"
    by (auto simp add: forward_step [OF ty t] split: option.split if_split_asm)
qed

text \<open>The state with admin 1 and user 2 is reached from the start.\<close>

lemma admin_and_user_reachable: "reachable {1, 2} admin_and_user"
proof -
  let ?s1 = "snd (fetch_ws init_state)"
  let ?s2 = "post (websocket_open ?s1 1)"
  let ?s3 = "snd (fetch_ws ?s2)"
  have i1: "fst (fetch_ws init_state) = 1"
    by (simp add: fetch_ws_def init_state_def)
  have i2: "fst (fetch_ws ?s2) = 2"
    by (simp add: fetch_ws_def init_state_def open_frame)
  have "reachable (insert (fst (fetch_ws init_state)) {}) ?s1"
    by (rule reachable.fetch [OF reachable.start])
  then have 1: "reachable {1} ?s1"
    unfolding i1 .
  then have 2: "reachable {1} ?s2"
    by (rule reachable.opened) simp
  then have "reachable (insert (fst (fetch_ws ?s2)) {1}) ?s3"
    by (rule reachable.fetch)
  then have 3: "reachable {1, 2} ?s3"
    unfolding i2 by (simp add: insert_commute)
  then have "reachable {1, 2} (post (websocket_open ?s3 2))"
    by (rule reachable.opened) simp
  then show ?thesis
    by (simp add: admin_and_user_def returns_def)
qed

text \<open>The two outcomes for an admin sender, on a state reached from the start.\<close>

lemma resolution_example:
  "websocket_message admin_and_user 1
     (Inr (JObj [(''type'', JStr ''MESSAGE''), (''targetId'', JNum 7)]))
     = returns admin_and_user [Send 1 (error_envelope ''7'')]
   \<and> websocket_message admin_and_user 1
     (Inr (JObj [(''type'', JStr ''MESSAGE''), (''targetId'', JNum 2)]))
     = returns admin_and_user
         [Send 2 (JObj [(''type'', JStr ''MESSAGE''), (''targetId'', JNum 2),
                        (''senderId'', JNum 1)])]"
proof -
  let ?m = "\<lambda>n. JObj [(''type'', JStr ''MESSAGE''), (''targetId'', JNum n)]"
  have a: "ws_role admin_and_user 1 = Some Admin"
    and u: "userConnections admin_and_user = [(2, 2)]"
    by (simp_all add: example_defs handler_defs)
  have s: "Number_toString 7 = ''7''"
    by code_simp
  have p: "ToString (if ToBoolean (get_prop (?m 7) ''targetId'')
                     then get_prop (?m 7) ''targetId'' else JStr text_admin) = Inr ''7''"
    by (simp add: s)
  have q: "ToString (if ToBoolean (get_prop (?m 2) ''targetId'')
                     then get_prop (?m 2) ''targetId'' else JStr text_admin)
           = Inr (Number_toString 2)"
    by simp
  show ?thesis
    using resolution_when_printable [OF admin_and_user_reachable _ disjI2 [OF refl] p, of 1]
      resolution_when_printable [OF admin_and_user_reachable _ disjI2 [OF refl] q, of 1]
      a u
    by simp
qed

text \<open>
  Claim C3 asks for one \<^verbatim>\<open>ERROR\<close> envelope to the sender whenever the peer is not
  found. The handler builds the text of that envelope from \<^verbatim>\<open>targetId\<close> before it
  sends. Here the admin names as target an object with an own \<^verbatim>\<open>toString\<close>
  property: no user is registered under it, the conversion to text throws, and the
  handler ends with a \<^verbatim>\<open>TypeError\<close> having sent nothing.
\<close>

theorem unprintable_target_no_error:
  "ws_role admin_and_user 1 = Some Admin
   \<and> get_prop unprintable_target ''type'' = JStr ''MESSAGE''
   \<and> findPeer admin_and_user 1 (Some Admin) (get_prop unprintable_target ''targetId'') = None
   \<and> websocket_message admin_and_user 1 (Inr unprintable_target)
       = throws admin_and_user [] TypeError"
  by (simp add: findPeer_def unprintable_target_def example_defs handler_defs)

end
